theory Spec2Isabelle
  imports Main
begin

section \<open>CodeBot: the model loader and the text generator of the notebook\<close>

text \<open>
  The notebook \<^verbatim>\<open>CoadBot.ipynb\<close> defines two functions,
  \<^verbatim>\<open>instantiate_huggingface_model\<close> and \<^verbatim>\<open>generate_text\<close>. Both are thin
  wrappers around calls into the \<^verbatim>\<open>transformers\<close> library. The library is not
  part of the notebook, so it is a parameter of the embedding: every library entry point
  is an arbitrary function that reads and changes an external state (the model hub, the
  devices, the random number generator) and either raises or returns.
\<close>

subsection \<open>Python values, exceptions and the external world\<close>

datatype pyval = PyNone | PyBool bool | PyStr string

text \<open>Exceptions are values: the left summand of a result.\<close>

datatype py_error =
    IndexError
  | KeyError string
  | OSError string
  | ValueError string
  | OutOfMemoryError
  | RuntimeError string

text \<open>
  \<^verbatim>\<open>BitsAndBytesConfig(**kwargs)\<close>: a configuration object is the keyword
  arguments it was constructed with, in order.
\<close>

datatype quantization_cfg = BitsAndBytesConfig "(string \<times> pyval) list"

text \<open>
  The tokenizer object. The notebook reads \<^verbatim>\<open>eos_token\<close> and assigns
  \<^verbatim>\<open>pad_token\<close> and \<^verbatim>\<open>padding_side\<close>; a token attribute of a tokenizer may
  be \<^verbatim>\<open>None\<close>. Everything else the object holds is \<open>tokenizer_rest\<close>.
\<close>

record 't tokenizer =
  tokenizer_eos_token :: "string option"
  tokenizer_pad_token :: "string option"
  tokenizer_padding_side :: string
  tokenizer_rest :: 't

text \<open>
  The library calls the notebook's two functions make, with the arguments they are made
  with. The world keeps them in order, next to the external state.
\<close>

datatype call =
    Model_from_pretrained string quantization_cfg string bool "bool option"
  | Tokenizer_from_pretrained string "bool option"
  | Pipeline_call string

record 'x world =
  calls :: "call list"
  ext :: 'x

text \<open>
  The two entry points of the library that the loader uses:
  \<^verbatim>\<open>AutoModelForCausalLM.from_pretrained(model_name, quantization_config=,
  device_map=, use_cache=, trust_remote_code=)\<close> and
  \<^verbatim>\<open>AutoTokenizer.from_pretrained(model_name, trust_remote_code=)\<close>.
\<close>

record ('m, 't, 'x) transformers =
  AutoModelForCausalLM_from_pretrained ::
    "string \<Rightarrow> quantization_cfg \<Rightarrow> string \<Rightarrow> bool \<Rightarrow> bool option \<Rightarrow> 'x
       \<Rightarrow> (py_error + 'm) \<times> 'x"
  AutoTokenizer_from_pretrained ::
    "string \<Rightarrow> bool option \<Rightarrow> 'x \<Rightarrow> (py_error + 't tokenizer) \<times> 'x"

text \<open>
  A pipeline object is called with a prompt and returns a list of dictionaries, or raises.
\<close>

type_synonym 'x pipeline = "string \<Rightarrow> 'x \<Rightarrow> (py_error + (string \<rightharpoonup> pyval) list) \<times> 'x"

text \<open>Making a library call: the call is recorded and the external state advances.\<close>

definition model_from_pretrained ::
  "('m, 't, 'x) transformers \<Rightarrow> string \<Rightarrow> quantization_cfg \<Rightarrow> string \<Rightarrow> bool \<Rightarrow> bool option
     \<Rightarrow> 'x world \<Rightarrow> (py_error + 'm) \<times> 'x world" where
  "model_from_pretrained lib model_name qc dm uc trc w =
     (case AutoModelForCausalLM_from_pretrained lib model_name qc dm uc trc (ext w) of
        (r, x) \<Rightarrow>
          (r, \<lparr>calls = calls w @ [Model_from_pretrained model_name qc dm uc trc], ext = x\<rparr>))"

definition tokenizer_from_pretrained ::
  "('m, 't, 'x) transformers \<Rightarrow> string \<Rightarrow> bool option
     \<Rightarrow> 'x world \<Rightarrow> (py_error + 't tokenizer) \<times> 'x world" where
  "tokenizer_from_pretrained lib model_name trc w =
     (case AutoTokenizer_from_pretrained lib model_name trc (ext w) of
        (r, x) \<Rightarrow> (r, \<lparr>calls = calls w @ [Tokenizer_from_pretrained model_name trc], ext = x\<rparr>))"

definition pipeline_call ::
  "'x pipeline \<Rightarrow> string \<Rightarrow> 'x world \<Rightarrow> (py_error + (string \<rightharpoonup> pyval) list) \<times> 'x world" where
  "pipeline_call pipeline prompt w =
     (case pipeline prompt (ext w) of
        (r, x) \<Rightarrow> (r, \<lparr>calls = calls w @ [Pipeline_call prompt], ext = x\<rparr>))"

subsection \<open>The model loader\<close>

text \<open>
  The keyword parameters of \<^verbatim>\<open>instantiate_huggingface_model\<close> and their default
  values: \<^verbatim>\<open>quantization_config=None, device_map="auto", use_cache=True,
  trust_remote_code=None, pad_token=None, padding_side="left"\<close>.
\<close>

record loader_kwargs =
  quantization_config :: "quantization_cfg option"
  device_map :: string
  use_cache :: bool
  trust_remote_code :: "bool option"
  pad_token :: "string option"
  padding_side :: string

definition default_kwargs :: loader_kwargs where
  "default_kwargs =
     \<lparr>quantization_config = None, device_map = ''auto'', use_cache = True,
      trust_remote_code = None, pad_token = None, padding_side = ''left''\<rparr>"

text \<open>
  The configuration built when none is given:
  \<^verbatim>\<open>BitsAndBytesConfig(load_in_8bit=True, low_cpu_mem_usage=True)\<close>.
\<close>

definition default_quantization_config :: quantization_cfg where
  "default_quantization_config =
     BitsAndBytesConfig [(''load_in_8bit'', PyBool True), (''low_cpu_mem_usage'', PyBool True)]"

text \<open>
  \<^verbatim>\<open>
  if quantization_config is None:
      quantization_config = BitsAndBytesConfig(load_in_8bit=True, low_cpu_mem_usage=True)
  model = AutoModelForCausalLM.from_pretrained(model_name,
      quantization_config=quantization_config, device_map=device_map,
      use_cache=use_cache, trust_remote_code=trust_remote_code)
  tokenizer = AutoTokenizer.from_pretrained(model_name, trust_remote_code=trust_remote_code)
  if pad_token is not None:
      tokenizer.pad_token = pad_token
  else:
      tokenizer.pad_token = tokenizer.eos_token
  tokenizer.padding_side = padding_side
  return model, tokenizer
  \<close>
  There is no \<^verbatim>\<open>try\<close>: an exception of a library call ends the function.
\<close>

definition instantiate_huggingface_model ::
  "('m, 't, 'x) transformers \<Rightarrow> string \<Rightarrow> loader_kwargs
     \<Rightarrow> 'x world \<Rightarrow> (py_error + 'm \<times> 't tokenizer) \<times> 'x world" where
  "instantiate_huggingface_model lib model_name kw w =
     (let qc = (case quantization_config kw of
                  None \<Rightarrow> default_quantization_config
                | Some c \<Rightarrow> c)
      in case model_from_pretrained lib model_name qc (device_map kw) (use_cache kw)
                (trust_remote_code kw) w of
           (Inl e, w1) \<Rightarrow> (Inl e, w1)
         | (Inr model, w1) \<Rightarrow>
             (case tokenizer_from_pretrained lib model_name (trust_remote_code kw) w1 of
                (Inl e, w2) \<Rightarrow> (Inl e, w2)
              | (Inr tokenizer, w2) \<Rightarrow>
                  (let tokenizer1 =
                         (case pad_token kw of
                            Some p \<Rightarrow> tokenizer\<lparr>tokenizer_pad_token := Some p\<rparr>
                          | None \<Rightarrow>
                              tokenizer\<lparr>tokenizer_pad_token := tokenizer_eos_token tokenizer\<rparr>);
                       tokenizer2 = tokenizer1\<lparr>tokenizer_padding_side := padding_side kw\<rparr>
                   in (Inr (model, tokenizer2), w2))))"

subsection \<open>The loader on a store of configuration objects\<close>

text \<open>
  A \<^verbatim>\<open>BitsAndBytesConfig\<close> is a mutable object, and the caller passes a reference
  to it. To say what the loader does to that object, the same function is written once
  more over a store: references are addresses, \<open>objs\<close> holds the configuration object
  at each address and \<open>next_free\<close> is the first address not yet allocated. The strings,
  the booleans and \<^verbatim>\<open>None\<close> are immutable in Python and stay values.
  \<^verbatim>\<open>quantization_config = BitsAndBytesConfig(...)\<close> allocates a new object and
  binds the local name to it; the model-loading call is given the object the name refers
  to, as it is in the store at that moment. The body has no assignment to an attribute of
  the configuration, so the function returns the store as the last statement left it.
\<close>

type_synonym ref = nat

record config_store =
  objs :: "ref \<Rightarrow> quantization_cfg"
  next_free :: ref

definition instantiate_huggingface_model_by_reference ::
  "('m, 't, 'x) transformers \<Rightarrow> string \<Rightarrow> ref option \<Rightarrow> string \<Rightarrow> bool \<Rightarrow> bool option
     \<Rightarrow> string option \<Rightarrow> string \<Rightarrow> config_store \<Rightarrow> 'x world
     \<Rightarrow> ((py_error + 'm \<times> 't tokenizer) \<times> 'x world) \<times> config_store" where
  "instantiate_huggingface_model_by_reference lib model_name qref dm uc trc pt ps h w =
     (case (case qref of
              None \<Rightarrow>
                (next_free h,
                 h\<lparr>objs := (objs h)(next_free h := default_quantization_config),
                   next_free := Suc (next_free h)\<rparr>)
            | Some r \<Rightarrow> (r, h)) of
        (r, h1) \<Rightarrow>
          (case model_from_pretrained lib model_name (objs h1 r) dm uc trc w of
             (Inl e, w1) \<Rightarrow> ((Inl e, w1), h1)
           | (Inr model, w1) \<Rightarrow>
               (case tokenizer_from_pretrained lib model_name trc w1 of
                  (Inl e, w2) \<Rightarrow> ((Inl e, w2), h1)
                | (Inr tokenizer, w2) \<Rightarrow>
                    (let tokenizer1 =
                           (case pt of
                              Some p \<Rightarrow> tokenizer\<lparr>tokenizer_pad_token := Some p\<rparr>
                            | None \<Rightarrow>
                                tokenizer\<lparr>tokenizer_pad_token := tokenizer_eos_token tokenizer\<rparr>);
                         tokenizer2 = tokenizer1\<lparr>tokenizer_padding_side := ps\<rparr>
                     in ((Inr (model, tokenizer2), w2), h1)))))"

subsection \<open>The text generator\<close>

text \<open>
  \<^verbatim>\<open>
  def generate_text(pipeline, prompt):
      result = pipeline(prompt)[0]['generated_text']
  \<close>
  The body is this one assignment. \<^verbatim>\<open>[0]\<close> raises \<^verbatim>\<open>IndexError\<close> on an
  empty list and \<^verbatim>\<open>['generated_text']\<close> raises \<^verbatim>\<open>KeyError\<close> on a dictionary
  without that key. The function has no \<^verbatim>\<open>return\<close> statement, so a call that does
  not raise evaluates to \<^verbatim>\<open>None\<close>.
\<close>

definition generate_text ::
  "'x pipeline \<Rightarrow> string \<Rightarrow> 'x world \<Rightarrow> (py_error + pyval) \<times> 'x world" where
  "generate_text pipeline prompt w =
     (case pipeline_call pipeline prompt w of
        (Inl e, w1) \<Rightarrow> (Inl e, w1)
      | (Inr out, w1) \<Rightarrow>
          (case out of
             [] \<Rightarrow> (Inl IndexError, w1)
           | d # _ \<Rightarrow>
               (case d ''generated_text'' of
                  None \<Rightarrow> (Inl (KeyError ''generated_text''), w1)
                | Some result \<Rightarrow> (Inr PyNone, w1))))"

subsection \<open>A small model hub and three pipelines, for concrete runs\<close>

text \<open>
  A library instance over a hub with three entries; the external state counts the
  downloads. \<^verbatim>\<open>Deci/DeciCoder-6B\<close> loads with an end-of-sequence token,
  \<^verbatim>\<open>no-eos\<close> loads with a tokenizer that has none, \<^verbatim>\<open>weights-only\<close> has a
  model but no tokenizer files, and every other identifier is not found.
\<close>

definition hub :: "(string, unit, nat) transformers" where
  "hub =
     \<lparr>AutoModelForCausalLM_from_pretrained =
        (\<lambda>model_name qc dm uc trc x.
           if model_name = ''Deci/DeciCoder-6B'' \<or> model_name = ''no-eos''
              \<or> model_name = ''weights-only''
           then (Inr model_name, Suc x)
           else (Inl (OSError model_name), x)),
      AutoTokenizer_from_pretrained =
        (\<lambda>model_name trc x.
           if model_name = ''Deci/DeciCoder-6B''
           then (Inr \<lparr>tokenizer_eos_token = Some ''<|endoftext|>'', tokenizer_pad_token = None,
                      tokenizer_padding_side = ''right'', tokenizer_rest = ()\<rparr>, Suc x)
           else if model_name = ''no-eos''
           then (Inr \<lparr>tokenizer_eos_token = None, tokenizer_pad_token = None,
                      tokenizer_padding_side = ''right'', tokenizer_rest = ()\<rparr>, Suc x)
           else (Inl (OSError model_name), x))\<rparr>"

definition world0 :: "nat world" where
  "world0 = \<lparr>calls = [], ext = 0\<rparr>"

text \<open>
  A pipeline that answers every prompt with one completion, the prompt followed by
  \<^verbatim>\<open> pass\<close>; one that answers with a fixed list; and one that always raises.
\<close>

definition echo_pipeline :: "nat pipeline" where
  "echo_pipeline prompt x = (Inr [[''generated_text'' \<mapsto> PyStr (prompt @ '' pass'')]], Suc x)"

definition const_pipeline :: "(string \<rightharpoonup> pyval) list \<Rightarrow> nat pipeline" where
  "const_pipeline out prompt x = (Inr out, Suc x)"

definition failing_pipeline :: "py_error \<Rightarrow> nat pipeline" where
  "failing_pipeline e prompt x = (Inl e, x)"

text \<open>
  A library instance that accepts every identifier; the model it loads is the tuple of
  keyword arguments the model-loading call was given.
\<close>

definition spy :: "(quantization_cfg \<times> string \<times> bool \<times> bool option, unit, nat) transformers" where
  "spy =
     \<lparr>AutoModelForCausalLM_from_pretrained =
        (\<lambda>model_name qc dm uc trc x. (Inr (qc, dm, uc, trc), Suc x)),
      AutoTokenizer_from_pretrained =
        (\<lambda>model_name trc x.
           (Inr \<lparr>tokenizer_eos_token = Some ''<|endoftext|>'', tokenizer_pad_token = None,
                 tokenizer_padding_side = ''right'', tokenizer_rest = ()\<rparr>, Suc x))\<rparr>"

text \<open>
  A store with one configuration object, \<^verbatim>\<open>BitsAndBytesConfig(load_in_4bit=True)\<close>,
  at address 0.
\<close>

definition store0 :: config_store where
  "store0 =
     \<lparr>objs = (\<lambda>r. BitsAndBytesConfig [])(0 := BitsAndBytesConfig [(''load_in_4bit'', PyBool True)]),
      next_free = 1\<rparr>"

section \<open>Properties\<close>

subsection \<open>The calls a run makes\<close>

lemma generate_text_world:
  "snd (generate_text pipeline prompt w) = snd (pipeline_call pipeline prompt w)"
  by (simp add: generate_text_def split: prod.splits sum.splits list.splits option.splits)

text \<open>
  C10. \<^verbatim>\<open>generate_text\<close> checks nothing about the prompt: for every prompt, the
  empty one included, it calls the pipeline exactly once, with the prompt as it was given.
  The calls recorded grow by this one call, and the external state is the one that a
  single call of the pipeline on the prompt leaves.
\<close>

theorem generate_text_calls_pipeline_once:
  "calls (snd (generate_text pipeline prompt w)) = calls w @ [Pipeline_call prompt]
   \<and> ext (snd (generate_text pipeline prompt w)) = snd (pipeline prompt (ext w))
   \<and> calls (snd (generate_text pipeline [] w)) = calls w @ [Pipeline_call []]"
  by (simp add: generate_text_world pipeline_call_def split: prod.splits)

subsection \<open>What a successful load returns\<close>

text \<open>
  The loader returns a pair exactly when both library calls return, one after the other;
  the tokenizer of the pair is the library's, with its two fields assigned.
\<close>

lemma instantiate_Inr_iff:
  "instantiate_huggingface_model lib model_name kw w = (Inr (model, tokenizer), w') \<longleftrightarrow>
     (\<exists>w1 t0.
        model_from_pretrained lib model_name
          (case quantization_config kw of None \<Rightarrow> default_quantization_config | Some c \<Rightarrow> c)
          (device_map kw) (use_cache kw) (trust_remote_code kw) w = (Inr model, w1)
      \<and> tokenizer_from_pretrained lib model_name (trust_remote_code kw) w1 = (Inr t0, w')
      \<and> tokenizer =
          t0\<lparr>tokenizer_pad_token :=
                (case pad_token kw of None \<Rightarrow> tokenizer_eos_token t0 | Some p \<Rightarrow> Some p),
              tokenizer_padding_side := padding_side kw\<rparr>)"
  by (auto simp: instantiate_huggingface_model_def Let_def
      split: prod.splits sum.splits option.splits)




text \<open>
  C2. When \<^verbatim>\<open>pad_token\<close> is omitted, the pad token of the returned tokenizer is
  that tokenizer's end-of-sequence token; when a pad token is supplied, it is the supplied
  one.
\<close>

theorem pad_token_of_loaded_tokenizer:
  assumes "instantiate_huggingface_model lib model_name kw w = (Inr (model, tokenizer), w')"
  shows "tokenizer_pad_token tokenizer =
           (case pad_token kw of None \<Rightarrow> tokenizer_eos_token tokenizer | Some p \<Rightarrow> Some p)"
  using assms by (auto simp: instantiate_Inr_iff split: option.splits)

lemma hub_load_deci:
  "instantiate_huggingface_model hub ''Deci/DeciCoder-6B''
       (default_kwargs\<lparr>trust_remote_code := Some True\<rparr>) world0 =
     (Inr (''Deci/DeciCoder-6B'',
           \<lparr>tokenizer_eos_token = Some ''<|endoftext|>'',
            tokenizer_pad_token = Some ''<|endoftext|>'',
            tokenizer_padding_side = ''left'', tokenizer_rest = ()\<rparr>),
      \<lparr>calls = [Model_from_pretrained ''Deci/DeciCoder-6B'' default_quantization_config
                  ''auto'' True (Some True),
                Tokenizer_from_pretrained ''Deci/DeciCoder-6B'' (Some True)],
       ext = 2\<rparr>)"
  by (simp add: instantiate_huggingface_model_def model_from_pretrained_def
      tokenizer_from_pretrained_def hub_def default_kwargs_def world0_def)

lemma hub_load_deci_pad:
  "instantiate_huggingface_model hub ''Deci/DeciCoder-6B''
       (default_kwargs\<lparr>pad_token := Some ''<pad>'', padding_side := ''right''\<rparr>) world0 =
     (Inr (''Deci/DeciCoder-6B'',
           \<lparr>tokenizer_eos_token = Some ''<|endoftext|>'',
            tokenizer_pad_token = Some ''<pad>'',
            tokenizer_padding_side = ''right'', tokenizer_rest = ()\<rparr>),
      \<lparr>calls = [Model_from_pretrained ''Deci/DeciCoder-6B'' default_quantization_config
                  ''auto'' True None,
                Tokenizer_from_pretrained ''Deci/DeciCoder-6B'' None],
       ext = 2\<rparr>)"
  by (simp add: instantiate_huggingface_model_def model_from_pretrained_def
      tokenizer_from_pretrained_def hub_def default_kwargs_def world0_def)

theorem pad_token_of_loaded_tokenizer_witness:
  "instantiate_huggingface_model hub ''Deci/DeciCoder-6B''
       (default_kwargs\<lparr>trust_remote_code := Some True\<rparr>) world0 =
     (Inr (''Deci/DeciCoder-6B'',
           \<lparr>tokenizer_eos_token = Some ''<|endoftext|>'',
            tokenizer_pad_token = Some ''<|endoftext|>'',
            tokenizer_padding_side = ''left'', tokenizer_rest = ()\<rparr>),
      \<lparr>calls = [Model_from_pretrained ''Deci/DeciCoder-6B'' default_quantization_config
                  ''auto'' True (Some True),
                Tokenizer_from_pretrained ''Deci/DeciCoder-6B'' (Some True)],
       ext = 2\<rparr>)
   \<and> tokenizer_pad_token
        \<lparr>tokenizer_eos_token = Some ''<|endoftext|>'',
         tokenizer_pad_token = Some ''<|endoftext|>'',
         tokenizer_padding_side = ''left'', tokenizer_rest = ()\<rparr> = Some ''<|endoftext|>''
   \<and> instantiate_huggingface_model hub ''Deci/DeciCoder-6B''
       (default_kwargs\<lparr>pad_token := Some ''<pad>'', padding_side := ''right''\<rparr>) world0 =
     (Inr (''Deci/DeciCoder-6B'',
           \<lparr>tokenizer_eos_token = Some ''<|endoftext|>'',
            tokenizer_pad_token = Some ''<pad>'',
            tokenizer_padding_side = ''right'', tokenizer_rest = ()\<rparr>),
      \<lparr>calls = [Model_from_pretrained ''Deci/DeciCoder-6B'' default_quantization_config
                  ''auto'' True None,
                Tokenizer_from_pretrained ''Deci/DeciCoder-6B'' None],
       ext = 2\<rparr>)
   \<and> tokenizer_pad_token
        \<lparr>tokenizer_eos_token = Some ''<|endoftext|>'',
         tokenizer_pad_token = Some ''<pad>'',
         tokenizer_padding_side = ''right'', tokenizer_rest = ()\<rparr> = Some ''<pad>''"
  using pad_token_of_loaded_tokenizer [OF hub_load_deci]
    pad_token_of_loaded_tokenizer [OF hub_load_deci_pad]
    hub_load_deci hub_load_deci_pad
  by (simp add: default_kwargs_def)

subsection \<open>What the loader forwards\<close>

text \<open>
  The loader, written out on the two entry points of the library.
\<close>

lemma instantiate_by_entry_points:
  "instantiate_huggingface_model lib model_name kw w =
     (case AutoModelForCausalLM_from_pretrained lib model_name
             (case quantization_config kw of None \<Rightarrow> default_quantization_config | Some c \<Rightarrow> c)
             (device_map kw) (use_cache kw) (trust_remote_code kw) (ext w) of
        (Inl e, x) \<Rightarrow>
          (Inl e,
           \<lparr>calls = calls w @
              [Model_from_pretrained model_name
                 (case quantization_config kw of
                    None \<Rightarrow> default_quantization_config
                  | Some c \<Rightarrow> c)
                 (device_map kw) (use_cache kw) (trust_remote_code kw)],
            ext = x\<rparr>)
      | (Inr model, x) \<Rightarrow>
          (case AutoTokenizer_from_pretrained lib model_name (trust_remote_code kw) x of
             (Inl e, x') \<Rightarrow>
               (Inl e,
                \<lparr>calls = calls w @
                   [Model_from_pretrained model_name
                      (case quantization_config kw of
                         None \<Rightarrow> default_quantization_config
                       | Some c \<Rightarrow> c)
                      (device_map kw) (use_cache kw) (trust_remote_code kw),
                    Tokenizer_from_pretrained model_name (trust_remote_code kw)],
                 ext = x'\<rparr>)
           | (Inr tokenizer, x') \<Rightarrow>
               (Inr (model,
                     tokenizer\<lparr>tokenizer_pad_token :=
                                 (case pad_token kw of
                                    None \<Rightarrow> tokenizer_eos_token tokenizer
                                  | Some p \<Rightarrow> Some p),
                               tokenizer_padding_side := padding_side kw\<rparr>),
                \<lparr>calls = calls w @
                   [Model_from_pretrained model_name
                      (case quantization_config kw of
                         None \<Rightarrow> default_quantization_config
                       | Some c \<Rightarrow> c)
                      (device_map kw) (use_cache kw) (trust_remote_code kw),
                    Tokenizer_from_pretrained model_name (trust_remote_code kw)],
                 ext = x'\<rparr>)))"
  by (simp add: instantiate_huggingface_model_def model_from_pretrained_def
      tokenizer_from_pretrained_def Let_def
      split: prod.splits sum.splits option.splits)

text \<open>
  C3. When \<^verbatim>\<open>quantization_config\<close> is omitted, the library's model-loading entry
  point is applied to the model identifier,
  \<^verbatim>\<open>BitsAndBytesConfig(load_in_8bit=True, low_cpu_mem_usage=True)\<close> and the three
  other keyword arguments, in the external state the loader was entered in, and what that
  application returns decides the run: its exception is the loader's, and its model is the
  model of the returned pair, the tokenizer being loaded in the state it left. When a
  configuration is supplied, the same holds with the supplied configuration in place of
  the default one. An omitted configuration gives the run that the default one gives when
  it is supplied.
\<close>

theorem default_quantization_config_forwarded:
  "(AutoModelForCausalLM_from_pretrained lib model_name
      (BitsAndBytesConfig [(''load_in_8bit'', PyBool True), (''low_cpu_mem_usage'', PyBool True)])
      (device_map kw) (use_cache kw) (trust_remote_code kw) (ext w) = (Inl e, x)
    \<longrightarrow> instantiate_huggingface_model lib model_name (kw\<lparr>quantization_config := None\<rparr>) w =
         (Inl e,
          \<lparr>calls = calls w @
             [Model_from_pretrained model_name
                (BitsAndBytesConfig
                   [(''load_in_8bit'', PyBool True), (''low_cpu_mem_usage'', PyBool True)])
                (device_map kw) (use_cache kw) (trust_remote_code kw)],
           ext = x\<rparr>))
   \<and> (AutoModelForCausalLM_from_pretrained lib model_name
        (BitsAndBytesConfig [(''load_in_8bit'', PyBool True), (''low_cpu_mem_usage'', PyBool True)])
        (device_map kw) (use_cache kw) (trust_remote_code kw) (ext w) = (Inr model, x)
      \<longrightarrow> instantiate_huggingface_model lib model_name (kw\<lparr>quantization_config := None\<rparr>) w =
           (case AutoTokenizer_from_pretrained lib model_name (trust_remote_code kw) x of
              (Inl e', x') \<Rightarrow>
                (Inl e',
                 \<lparr>calls = calls w @
                    [Model_from_pretrained model_name
                       (BitsAndBytesConfig
                          [(''load_in_8bit'', PyBool True), (''low_cpu_mem_usage'', PyBool True)])
                       (device_map kw) (use_cache kw) (trust_remote_code kw),
                     Tokenizer_from_pretrained model_name (trust_remote_code kw)],
                  ext = x'\<rparr>)
            | (Inr tokenizer, x') \<Rightarrow>
                (Inr (model,
                      tokenizer\<lparr>tokenizer_pad_token :=
                                  (case pad_token kw of
                                     None \<Rightarrow> tokenizer_eos_token tokenizer
                                   | Some p \<Rightarrow> Some p),
                                tokenizer_padding_side := padding_side kw\<rparr>),
                 \<lparr>calls = calls w @
                    [Model_from_pretrained model_name
                       (BitsAndBytesConfig
                          [(''load_in_8bit'', PyBool True), (''low_cpu_mem_usage'', PyBool True)])
                       (device_map kw) (use_cache kw) (trust_remote_code kw),
                     Tokenizer_from_pretrained model_name (trust_remote_code kw)],
                  ext = x'\<rparr>)))
   \<and> (AutoModelForCausalLM_from_pretrained lib model_name c
        (device_map kw) (use_cache kw) (trust_remote_code kw) (ext w) = (Inl e, x)
      \<longrightarrow> instantiate_huggingface_model lib model_name (kw\<lparr>quantization_config := Some c\<rparr>) w =
           (Inl e,
            \<lparr>calls = calls w @
               [Model_from_pretrained model_name c
                  (device_map kw) (use_cache kw) (trust_remote_code kw)],
             ext = x\<rparr>))
   \<and> (AutoModelForCausalLM_from_pretrained lib model_name c
        (device_map kw) (use_cache kw) (trust_remote_code kw) (ext w) = (Inr model, x)
      \<longrightarrow> instantiate_huggingface_model lib model_name (kw\<lparr>quantization_config := Some c\<rparr>) w =
           (case AutoTokenizer_from_pretrained lib model_name (trust_remote_code kw) x of
              (Inl e', x') \<Rightarrow>
                (Inl e',
                 \<lparr>calls = calls w @
                    [Model_from_pretrained model_name c
                       (device_map kw) (use_cache kw) (trust_remote_code kw),
                     Tokenizer_from_pretrained model_name (trust_remote_code kw)],
                  ext = x'\<rparr>)
            | (Inr tokenizer, x') \<Rightarrow>
                (Inr (model,
                      tokenizer\<lparr>tokenizer_pad_token :=
                                  (case pad_token kw of
                                     None \<Rightarrow> tokenizer_eos_token tokenizer
                                   | Some p \<Rightarrow> Some p),
                                tokenizer_padding_side := padding_side kw\<rparr>),
                 \<lparr>calls = calls w @
                    [Model_from_pretrained model_name c
                       (device_map kw) (use_cache kw) (trust_remote_code kw),
                     Tokenizer_from_pretrained model_name (trust_remote_code kw)],
                  ext = x'\<rparr>)))
   \<and> instantiate_huggingface_model lib model_name (kw\<lparr>quantization_config := None\<rparr>) w =
       instantiate_huggingface_model lib model_name
         (kw\<lparr>quantization_config :=
               Some (BitsAndBytesConfig
                 [(''load_in_8bit'', PyBool True), (''low_cpu_mem_usage'', PyBool True)])\<rparr>) w"
proof -
  have n: "quantization_config (kw\<lparr>quantization_config := None\<rparr>) = None"
    and s: "quantization_config (kw\<lparr>quantization_config := Some c\<rparr>) = Some c"
    and d: "\<And>q. device_map (kw\<lparr>quantization_config := q\<rparr>) = device_map kw"
      "\<And>q. use_cache (kw\<lparr>quantization_config := q\<rparr>) = use_cache kw"
      "\<And>q. trust_remote_code (kw\<lparr>quantization_config := q\<rparr>) = trust_remote_code kw"
      "\<And>q. pad_token (kw\<lparr>quantization_config := q\<rparr>) = pad_token kw"
      "\<And>q. padding_side (kw\<lparr>quantization_config := q\<rparr>) = padding_side kw"
    by simp_all
  have a: "AutoModelForCausalLM_from_pretrained lib model_name default_quantization_config
             (device_map kw) (use_cache kw) (trust_remote_code kw) (ext w) = (Inl e, x)
           \<longrightarrow> instantiate_huggingface_model lib model_name
                 (kw\<lparr>quantization_config := None\<rparr>) w =
               (Inl e,
                \<lparr>calls = calls w @
                   [Model_from_pretrained model_name default_quantization_config
                      (device_map kw) (use_cache kw) (trust_remote_code kw)],
                 ext = x\<rparr>)"
    by (simp add: instantiate_by_entry_points [of lib model_name
          "kw\<lparr>quantization_config := None\<rparr>" w]
        split: prod.splits sum.splits)
  have b: "AutoModelForCausalLM_from_pretrained lib model_name default_quantization_config
             (device_map kw) (use_cache kw) (trust_remote_code kw) (ext w) = (Inr model, x)
           \<longrightarrow> instantiate_huggingface_model lib model_name
                 (kw\<lparr>quantization_config := None\<rparr>) w =
               (case AutoTokenizer_from_pretrained lib model_name (trust_remote_code kw) x of
                  (Inl e', x') \<Rightarrow>
                    (Inl e',
                     \<lparr>calls = calls w @
                        [Model_from_pretrained model_name default_quantization_config
                           (device_map kw) (use_cache kw) (trust_remote_code kw),
                         Tokenizer_from_pretrained model_name (trust_remote_code kw)],
                      ext = x'\<rparr>)
                | (Inr tokenizer, x') \<Rightarrow>
                    (Inr (model,
                          tokenizer\<lparr>tokenizer_pad_token :=
                                      (case pad_token kw of
                                         None \<Rightarrow> tokenizer_eos_token tokenizer
                                       | Some p \<Rightarrow> Some p),
                                    tokenizer_padding_side := padding_side kw\<rparr>),
                     \<lparr>calls = calls w @
                        [Model_from_pretrained model_name default_quantization_config
                           (device_map kw) (use_cache kw) (trust_remote_code kw),
                         Tokenizer_from_pretrained model_name (trust_remote_code kw)],
                      ext = x'\<rparr>))"
    by (simp add: instantiate_by_entry_points [of lib model_name
          "kw\<lparr>quantization_config := None\<rparr>" w]
        split: prod.splits sum.splits)
  have a': "AutoModelForCausalLM_from_pretrained lib model_name c
             (device_map kw) (use_cache kw) (trust_remote_code kw) (ext w) = (Inl e, x)
           \<longrightarrow> instantiate_huggingface_model lib model_name
                 (kw\<lparr>quantization_config := Some c\<rparr>) w =
               (Inl e,
                \<lparr>calls = calls w @
                   [Model_from_pretrained model_name c
                      (device_map kw) (use_cache kw) (trust_remote_code kw)],
                 ext = x\<rparr>)"
    by (simp add: instantiate_by_entry_points [of lib model_name
          "kw\<lparr>quantization_config := Some c\<rparr>" w]
        split: prod.splits sum.splits)
  have b': "AutoModelForCausalLM_from_pretrained lib model_name c
             (device_map kw) (use_cache kw) (trust_remote_code kw) (ext w) = (Inr model, x)
           \<longrightarrow> instantiate_huggingface_model lib model_name
                 (kw\<lparr>quantization_config := Some c\<rparr>) w =
               (case AutoTokenizer_from_pretrained lib model_name (trust_remote_code kw) x of
                  (Inl e', x') \<Rightarrow>
                    (Inl e',
                     \<lparr>calls = calls w @
                        [Model_from_pretrained model_name c
                           (device_map kw) (use_cache kw) (trust_remote_code kw),
                         Tokenizer_from_pretrained model_name (trust_remote_code kw)],
                      ext = x'\<rparr>)
                | (Inr tokenizer, x') \<Rightarrow>
                    (Inr (model,
                          tokenizer\<lparr>tokenizer_pad_token :=
                                      (case pad_token kw of
                                         None \<Rightarrow> tokenizer_eos_token tokenizer
                                       | Some p \<Rightarrow> Some p),
                                    tokenizer_padding_side := padding_side kw\<rparr>),
                     \<lparr>calls = calls w @
                        [Model_from_pretrained model_name c
                           (device_map kw) (use_cache kw) (trust_remote_code kw),
                         Tokenizer_from_pretrained model_name (trust_remote_code kw)],
                      ext = x'\<rparr>))"
    by (simp add: instantiate_by_entry_points [of lib model_name
          "kw\<lparr>quantization_config := Some c\<rparr>" w]
        split: prod.splits sum.splits)
  have q: "instantiate_huggingface_model lib model_name (kw\<lparr>quantization_config := None\<rparr>) w =
       instantiate_huggingface_model lib model_name
         (kw\<lparr>quantization_config := Some default_quantization_config\<rparr>) w"
    by (simp add: instantiate_by_entry_points [of lib model_name
          "kw\<lparr>quantization_config := None\<rparr>" w]
        instantiate_by_entry_points [of lib model_name
          "kw\<lparr>quantization_config := Some default_quantization_config\<rparr>" w]
        split: prod.splits sum.splits)
  from a b a' b' q show ?thesis
    unfolding default_quantization_config_def by (intro conjI)
qed

theorem default_quantization_config_forwarded_witness:
  "AutoModelForCausalLM_from_pretrained hub ''unknown/model''
       (BitsAndBytesConfig [(''load_in_8bit'', PyBool True), (''low_cpu_mem_usage'', PyBool True)])
       ''auto'' True None 0 =
     (Inl (OSError ''unknown/model''), 0)
   \<and> instantiate_huggingface_model hub ''unknown/model''
       (default_kwargs\<lparr>quantization_config := None\<rparr>) world0 =
     (Inl (OSError ''unknown/model''),
      \<lparr>calls = [Model_from_pretrained ''unknown/model''
                  (BitsAndBytesConfig
                     [(''load_in_8bit'', PyBool True), (''low_cpu_mem_usage'', PyBool True)])
                  ''auto'' True None],
       ext = 0\<rparr>)
   \<and> AutoModelForCausalLM_from_pretrained spy ''Deci/DeciCoder-6B''
       (BitsAndBytesConfig [(''load_in_8bit'', PyBool True), (''low_cpu_mem_usage'', PyBool True)])
       ''auto'' True None 0 =
     (Inr (BitsAndBytesConfig
             [(''load_in_8bit'', PyBool True), (''low_cpu_mem_usage'', PyBool True)],
           ''auto'', True, None), 1)
   \<and> instantiate_huggingface_model spy ''Deci/DeciCoder-6B''
       (default_kwargs\<lparr>quantization_config := None\<rparr>) world0 =
     (Inr ((BitsAndBytesConfig
              [(''load_in_8bit'', PyBool True), (''low_cpu_mem_usage'', PyBool True)],
            ''auto'', True, None),
           \<lparr>tokenizer_eos_token = Some ''<|endoftext|>'',
            tokenizer_pad_token = Some ''<|endoftext|>'',
            tokenizer_padding_side = ''left'', tokenizer_rest = ()\<rparr>),
      \<lparr>calls = [Model_from_pretrained ''Deci/DeciCoder-6B''
                  (BitsAndBytesConfig
                     [(''load_in_8bit'', PyBool True), (''low_cpu_mem_usage'', PyBool True)])
                  ''auto'' True None,
                Tokenizer_from_pretrained ''Deci/DeciCoder-6B'' None],
       ext = 2\<rparr>)
   \<and> AutoModelForCausalLM_from_pretrained hub ''unknown/model''
       (BitsAndBytesConfig [(''load_in_4bit'', PyBool True)]) ''auto'' True None 0 =
     (Inl (OSError ''unknown/model''), 0)
   \<and> instantiate_huggingface_model hub ''unknown/model''
       (default_kwargs\<lparr>quantization_config :=
           Some (BitsAndBytesConfig [(''load_in_4bit'', PyBool True)])\<rparr>) world0 =
     (Inl (OSError ''unknown/model''),
      \<lparr>calls = [Model_from_pretrained ''unknown/model''
                  (BitsAndBytesConfig [(''load_in_4bit'', PyBool True)]) ''auto'' True None],
       ext = 0\<rparr>)
   \<and> AutoModelForCausalLM_from_pretrained spy ''Deci/DeciCoder-6B''
       (BitsAndBytesConfig [(''load_in_4bit'', PyBool True)]) ''auto'' True None 0 =
     (Inr (BitsAndBytesConfig [(''load_in_4bit'', PyBool True)], ''auto'', True, None), 1)
   \<and> instantiate_huggingface_model spy ''Deci/DeciCoder-6B''
       (default_kwargs\<lparr>quantization_config :=
           Some (BitsAndBytesConfig [(''load_in_4bit'', PyBool True)])\<rparr>) world0 =
     (Inr ((BitsAndBytesConfig [(''load_in_4bit'', PyBool True)], ''auto'', True, None),
           \<lparr>tokenizer_eos_token = Some ''<|endoftext|>'',
            tokenizer_pad_token = Some ''<|endoftext|>'',
            tokenizer_padding_side = ''left'', tokenizer_rest = ()\<rparr>),
      \<lparr>calls = [Model_from_pretrained ''Deci/DeciCoder-6B''
                  (BitsAndBytesConfig [(''load_in_4bit'', PyBool True)]) ''auto'' True None,
                Tokenizer_from_pretrained ''Deci/DeciCoder-6B'' None],
       ext = 2\<rparr>)"
proof -
  let ?D = "BitsAndBytesConfig
              [(''load_in_8bit'', PyBool True), (''low_cpu_mem_usage'', PyBool True)]"
  let ?C = "BitsAndBytesConfig [(''load_in_4bit'', PyBool True)]"
  let ?t = "\<lparr>tokenizer_eos_token = Some ''<|endoftext|>'',
             tokenizer_pad_token = Some ''<|endoftext|>'',
             tokenizer_padding_side = ''left'', tokenizer_rest = ()\<rparr>"
  have kw: "device_map default_kwargs = ''auto''" "use_cache default_kwargs = True"
    "trust_remote_code default_kwargs = None" "pad_token default_kwargs = None"
    "padding_side default_kwargs = ''left''"
    by (simp_all add: default_kwargs_def)
  have w0: "ext world0 = 0" "calls world0 = []"
    by (simp_all add: world0_def)
  have h1: "AutoModelForCausalLM_from_pretrained hub ''unknown/model'' ?D ''auto'' True None 0 =
            (Inl (OSError ''unknown/model''), 0)"
    by (simp add: hub_def)
  have h2: "AutoModelForCausalLM_from_pretrained spy ''Deci/DeciCoder-6B'' ?D ''auto'' True None
              0 = (Inr (?D, ''auto'', True, None), 1)"
    by (simp add: spy_def)
  have h3: "AutoModelForCausalLM_from_pretrained hub ''unknown/model'' ?C ''auto'' True None 0 =
            (Inl (OSError ''unknown/model''), 0)"
    by (simp add: hub_def)
  have h4: "AutoModelForCausalLM_from_pretrained spy ''Deci/DeciCoder-6B'' ?C ''auto'' True None
              0 = (Inr (?C, ''auto'', True, None), 1)"
    by (simp add: spy_def)
  have t: "AutoTokenizer_from_pretrained spy ''Deci/DeciCoder-6B'' None 1 =
           (Inr \<lparr>tokenizer_eos_token = Some ''<|endoftext|>'', tokenizer_pad_token = None,
                 tokenizer_padding_side = ''right'', tokenizer_rest = ()\<rparr>, 2)"
    by (simp add: spy_def)
  have c1: "instantiate_huggingface_model hub ''unknown/model''
              (default_kwargs\<lparr>quantization_config := None\<rparr>) world0 =
            (Inl (OSError ''unknown/model''),
             \<lparr>calls = [Model_from_pretrained ''unknown/model'' ?D ''auto'' True None],
              ext = 0\<rparr>)"
    using h1
      default_quantization_config_forwarded [where lib = hub
        and model_name = "''unknown/model''" and kw = default_kwargs and w = world0
        and e = "OSError ''unknown/model''" and x = 0, THEN conjunct1]
    by (simp add: kw w0)
  have c2: "instantiate_huggingface_model spy ''Deci/DeciCoder-6B''
              (default_kwargs\<lparr>quantization_config := None\<rparr>) world0 =
            (Inr ((?D, ''auto'', True, None), ?t),
             \<lparr>calls = [Model_from_pretrained ''Deci/DeciCoder-6B'' ?D ''auto'' True None,
                       Tokenizer_from_pretrained ''Deci/DeciCoder-6B'' None],
              ext = 2\<rparr>)"
    using h2 t
      default_quantization_config_forwarded [where lib = spy
        and model_name = "''Deci/DeciCoder-6B''" and kw = default_kwargs and w = world0
        and model = "(?D, ''auto'', True, None)" and x = 1,
        THEN conjunct2, THEN conjunct1]
    by (simp add: kw w0)
  have c3: "instantiate_huggingface_model hub ''unknown/model''
              (default_kwargs\<lparr>quantization_config := Some ?C\<rparr>) world0 =
            (Inl (OSError ''unknown/model''),
             \<lparr>calls = [Model_from_pretrained ''unknown/model'' ?C ''auto'' True None],
              ext = 0\<rparr>)"
    using h3
      default_quantization_config_forwarded [where lib = hub
        and model_name = "''unknown/model''" and kw = default_kwargs and w = world0
        and c = ?C and e = "OSError ''unknown/model''" and x = 0,
        THEN conjunct2, THEN conjunct2, THEN conjunct1]
    by (simp add: kw w0)
  have c4: "instantiate_huggingface_model spy ''Deci/DeciCoder-6B''
              (default_kwargs\<lparr>quantization_config := Some ?C\<rparr>) world0 =
            (Inr ((?C, ''auto'', True, None), ?t),
             \<lparr>calls = [Model_from_pretrained ''Deci/DeciCoder-6B'' ?C ''auto'' True None,
                       Tokenizer_from_pretrained ''Deci/DeciCoder-6B'' None],
              ext = 2\<rparr>)"
    using h4 t
      default_quantization_config_forwarded [where lib = spy
        and model_name = "''Deci/DeciCoder-6B''" and kw = default_kwargs and w = world0
        and c = ?C and model = "(?C, ''auto'', True, None)" and x = 1,
        THEN conjunct2, THEN conjunct2, THEN conjunct2, THEN conjunct1]
    by (simp add: kw w0)
  from h1 h2 h3 h4 c1 c2 c3 c4 show ?thesis
    by simp
qed

subsection \<open>The caller's configuration object\<close>

text \<open>
  The loader over the store is the loader over values, run on the object the reference
  points to; an omitted configuration allocates one object and touches no other.
\<close>

lemma by_reference_supplied:
  "instantiate_huggingface_model_by_reference lib model_name (Some r) dm uc trc pt ps h w =
     (instantiate_huggingface_model lib model_name
        \<lparr>quantization_config = Some (objs h r), device_map = dm, use_cache = uc,
         trust_remote_code = trc, pad_token = pt, padding_side = ps\<rparr> w,
      h)"
  by (simp add: instantiate_huggingface_model_by_reference_def instantiate_huggingface_model_def
      Let_def split: prod.splits sum.splits option.splits)

lemma by_reference_omitted:
  "instantiate_huggingface_model_by_reference lib model_name None dm uc trc pt ps h w =
     (instantiate_huggingface_model lib model_name
        \<lparr>quantization_config = None, device_map = dm, use_cache = uc,
         trust_remote_code = trc, pad_token = pt, padding_side = ps\<rparr> w,
      h\<lparr>objs := (objs h)(next_free h := default_quantization_config),
        next_free := Suc (next_free h)\<rparr>)"
  by (simp add: instantiate_huggingface_model_by_reference_def instantiate_huggingface_model_def
      Let_def split: prod.splits sum.splits option.splits)

text \<open>
  C7. A configuration object supplied by the caller is not modified by the loader, and it
  reaches the model-loading call as it was supplied, together with the
  \<^verbatim>\<open>device_map\<close>, \<^verbatim>\<open>use_cache\<close> and \<^verbatim>\<open>trust_remote_code\<close> values. The
  store the loader returns is the store it was given, so the object at the supplied
  reference has every field it had. The library's model-loading entry point is applied to
  the model identifier, that object and the three values, in the external state the loader
  was entered in, and what that application returns decides the run.
\<close>

theorem supplied_configuration_forwarded_unchanged:
  "snd (instantiate_huggingface_model_by_reference lib model_name (Some r) dm uc trc pt ps h w)
     = h
   \<and> (AutoModelForCausalLM_from_pretrained lib model_name (objs h r) dm uc trc (ext w) =
        (Inl e, x)
      \<longrightarrow> fst (instantiate_huggingface_model_by_reference lib model_name (Some r) dm uc trc
                 pt ps h w) =
           (Inl e,
            \<lparr>calls = calls w @ [Model_from_pretrained model_name (objs h r) dm uc trc],
             ext = x\<rparr>))
   \<and> (AutoModelForCausalLM_from_pretrained lib model_name (objs h r) dm uc trc (ext w) =
        (Inr model, x)
      \<longrightarrow> fst (instantiate_huggingface_model_by_reference lib model_name (Some r) dm uc trc
                 pt ps h w) =
           (case AutoTokenizer_from_pretrained lib model_name trc x of
              (Inl e', x') \<Rightarrow>
                (Inl e',
                 \<lparr>calls = calls w @
                    [Model_from_pretrained model_name (objs h r) dm uc trc,
                     Tokenizer_from_pretrained model_name trc],
                  ext = x'\<rparr>)
            | (Inr tokenizer, x') \<Rightarrow>
                (Inr (model,
                      tokenizer\<lparr>tokenizer_pad_token :=
                                  (case pt of
                                     None \<Rightarrow> tokenizer_eos_token tokenizer
                                   | Some p \<Rightarrow> Some p),
                                tokenizer_padding_side := ps\<rparr>),
                 \<lparr>calls = calls w @
                    [Model_from_pretrained model_name (objs h r) dm uc trc,
                     Tokenizer_from_pretrained model_name trc],
                  ext = x'\<rparr>)))"
  by (simp add: by_reference_supplied instantiate_by_entry_points
      split: prod.splits sum.splits)

theorem supplied_configuration_forwarded_unchanged_witness:
  "objs store0 0 = BitsAndBytesConfig [(''load_in_4bit'', PyBool True)]
   \<and> snd (instantiate_huggingface_model_by_reference spy ''Deci/DeciCoder-6B'' (Some 0)
            ''cpu'' False (Some True) None ''left'' store0 world0) = store0
   \<and> AutoModelForCausalLM_from_pretrained spy ''Deci/DeciCoder-6B''
       (BitsAndBytesConfig [(''load_in_4bit'', PyBool True)]) ''cpu'' False (Some True) 0 =
     (Inr (BitsAndBytesConfig [(''load_in_4bit'', PyBool True)], ''cpu'', False, Some True), 1)
   \<and> fst (instantiate_huggingface_model_by_reference spy ''Deci/DeciCoder-6B'' (Some 0)
            ''cpu'' False (Some True) None ''left'' store0 world0) =
     (Inr ((BitsAndBytesConfig [(''load_in_4bit'', PyBool True)], ''cpu'', False, Some True),
           \<lparr>tokenizer_eos_token = Some ''<|endoftext|>'',
            tokenizer_pad_token = Some ''<|endoftext|>'',
            tokenizer_padding_side = ''left'', tokenizer_rest = ()\<rparr>),
      \<lparr>calls = [Model_from_pretrained ''Deci/DeciCoder-6B''
                  (BitsAndBytesConfig [(''load_in_4bit'', PyBool True)]) ''cpu'' False
                  (Some True),
                Tokenizer_from_pretrained ''Deci/DeciCoder-6B'' (Some True)],
       ext = 2\<rparr>)
   \<and> AutoModelForCausalLM_from_pretrained hub ''unknown/model''
       (BitsAndBytesConfig [(''load_in_4bit'', PyBool True)]) ''cpu'' False (Some True) 0 =
     (Inl (OSError ''unknown/model''), 0)
   \<and> fst (instantiate_huggingface_model_by_reference hub ''unknown/model'' (Some 0)
            ''cpu'' False (Some True) None ''left'' store0 world0) =
     (Inl (OSError ''unknown/model''),
      \<lparr>calls = [Model_from_pretrained ''unknown/model''
                  (BitsAndBytesConfig [(''load_in_4bit'', PyBool True)]) ''cpu'' False
                  (Some True)],
       ext = 0\<rparr>)"
proof -
  let ?C = "BitsAndBytesConfig [(''load_in_4bit'', PyBool True)]"
  let ?t = "\<lparr>tokenizer_eos_token = Some ''<|endoftext|>'',
             tokenizer_pad_token = Some ''<|endoftext|>'',
             tokenizer_padding_side = ''left'', tokenizer_rest = ()\<rparr>"
  have o: "objs store0 0 = ?C"
    by (simp add: store0_def)
  have w0: "ext world0 = 0" "calls world0 = []"
    by (simp_all add: world0_def)
  have h1: "AutoModelForCausalLM_from_pretrained spy ''Deci/DeciCoder-6B'' ?C ''cpu'' False
              (Some True) 0 = (Inr (?C, ''cpu'', False, Some True), 1)"
    by (simp add: spy_def)
  have t: "AutoTokenizer_from_pretrained spy ''Deci/DeciCoder-6B'' (Some True) 1 =
           (Inr \<lparr>tokenizer_eos_token = Some ''<|endoftext|>'', tokenizer_pad_token = None,
                 tokenizer_padding_side = ''right'', tokenizer_rest = ()\<rparr>, 2)"
    by (simp add: spy_def)
  have h2: "AutoModelForCausalLM_from_pretrained hub ''unknown/model'' ?C ''cpu'' False
              (Some True) 0 = (Inl (OSError ''unknown/model''), 0)"
    by (simp add: hub_def)
  have c0: "snd (instantiate_huggingface_model_by_reference spy ''Deci/DeciCoder-6B'' (Some 0)
                   ''cpu'' False (Some True) None ''left'' store0 world0) = store0"
    by (rule supplied_configuration_forwarded_unchanged [THEN conjunct1])
  have c1: "fst (instantiate_huggingface_model_by_reference spy ''Deci/DeciCoder-6B'' (Some 0)
                   ''cpu'' False (Some True) None ''left'' store0 world0) =
            (Inr ((?C, ''cpu'', False, Some True), ?t),
             \<lparr>calls = [Model_from_pretrained ''Deci/DeciCoder-6B'' ?C ''cpu'' False (Some True),
                       Tokenizer_from_pretrained ''Deci/DeciCoder-6B'' (Some True)],
              ext = 2\<rparr>)"
    using h1 t
      supplied_configuration_forwarded_unchanged [where lib = spy
        and model_name = "''Deci/DeciCoder-6B''" and r = 0 and dm = "''cpu''" and uc = False
        and trc = "Some True" and pt = None and ps = "''left''" and h = store0 and w = world0
        and model = "(?C, ''cpu'', False, Some True)" and x = 1,
        THEN conjunct2, THEN conjunct2]
    by (simp add: o w0)
  have c2: "fst (instantiate_huggingface_model_by_reference hub ''unknown/model'' (Some 0)
                   ''cpu'' False (Some True) None ''left'' store0 world0) =
            (Inl (OSError ''unknown/model''),
             \<lparr>calls = [Model_from_pretrained ''unknown/model'' ?C ''cpu'' False (Some True)],
              ext = 0\<rparr>)"
    using h2
      supplied_configuration_forwarded_unchanged [where lib = hub
        and model_name = "''unknown/model''" and r = 0 and dm = "''cpu''" and uc = False
        and trc = "Some True" and pt = None and ps = "''left''" and h = store0 and w = world0
        and e = "OSError ''unknown/model''" and x = 0,
        THEN conjunct2, THEN conjunct1]
    by (simp add: o w0)
  from o h1 h2 c0 c1 c2 show ?thesis
    by simp
qed

subsection \<open>Errors of the library\<close>

text \<open>
  C4. Neither function handles an error. An exception raised by the model-loading call,
  by the tokenizer-loading call or by the pipeline is the exception of the function, and
  the world is the one the failing call left: the call is not made again and no other call
  follows it. Conversely, the loader raises nothing of its own: each of its exceptions is
  the exception of one of its two library calls.
\<close>

theorem library_errors_propagate:
  "(model_from_pretrained lib model_name
      (case quantization_config kw of None \<Rightarrow> default_quantization_config | Some c \<Rightarrow> c)
      (device_map kw) (use_cache kw) (trust_remote_code kw) w = (Inl e, w1)
    \<longrightarrow> instantiate_huggingface_model lib model_name kw w = (Inl e, w1))
   \<and> (model_from_pretrained lib model_name
        (case quantization_config kw of None \<Rightarrow> default_quantization_config | Some c \<Rightarrow> c)
        (device_map kw) (use_cache kw) (trust_remote_code kw) w = (Inr model, w1)
      \<and> tokenizer_from_pretrained lib model_name (trust_remote_code kw) w1 = (Inl e, w2)
      \<longrightarrow> instantiate_huggingface_model lib model_name kw w = (Inl e, w2))
   \<and> (instantiate_huggingface_model lib model_name kw w = (Inl e, w3)
      \<longrightarrow> model_from_pretrained lib model_name
            (case quantization_config kw of None \<Rightarrow> default_quantization_config | Some c \<Rightarrow> c)
            (device_map kw) (use_cache kw) (trust_remote_code kw) w = (Inl e, w3)
          \<or> (\<exists>m w'. model_from_pretrained lib model_name
                (case quantization_config kw of
                   None \<Rightarrow> default_quantization_config
                 | Some c \<Rightarrow> c)
                (device_map kw) (use_cache kw) (trust_remote_code kw) w = (Inr m, w')
              \<and> tokenizer_from_pretrained lib model_name (trust_remote_code kw) w' =
                  (Inl e, w3)))
   \<and> (pipeline_call pipeline prompt v = (Inl e, v1)
      \<longrightarrow> generate_text pipeline prompt v = (Inl e, v1))"
  by (auto simp: instantiate_huggingface_model_def generate_text_def Let_def
      split: prod.splits sum.splits option.splits)

theorem library_errors_propagate_witness:
  "model_from_pretrained hub ''unknown/model'' default_quantization_config ''auto'' True None
       world0 =
     (Inl (OSError ''unknown/model''),
      \<lparr>calls = [Model_from_pretrained ''unknown/model'' default_quantization_config
                  ''auto'' True None],
       ext = 0\<rparr>)
   \<and> instantiate_huggingface_model hub ''unknown/model'' default_kwargs world0 =
     (Inl (OSError ''unknown/model''),
      \<lparr>calls = [Model_from_pretrained ''unknown/model'' default_quantization_config
                  ''auto'' True None],
       ext = 0\<rparr>)
   \<and> model_from_pretrained hub ''weights-only'' default_quantization_config ''auto'' True None
       world0 =
     (Inr ''weights-only'',
      \<lparr>calls = [Model_from_pretrained ''weights-only'' default_quantization_config
                  ''auto'' True None],
       ext = 1\<rparr>)
   \<and> tokenizer_from_pretrained hub ''weights-only'' None
       \<lparr>calls = [Model_from_pretrained ''weights-only'' default_quantization_config
                  ''auto'' True None],
        ext = 1\<rparr> =
     (Inl (OSError ''weights-only''),
      \<lparr>calls = [Model_from_pretrained ''weights-only'' default_quantization_config
                  ''auto'' True None,
                Tokenizer_from_pretrained ''weights-only'' None],
       ext = 1\<rparr>)
   \<and> instantiate_huggingface_model hub ''weights-only'' default_kwargs world0 =
     (Inl (OSError ''weights-only''),
      \<lparr>calls = [Model_from_pretrained ''weights-only'' default_quantization_config
                  ''auto'' True None,
                Tokenizer_from_pretrained ''weights-only'' None],
       ext = 1\<rparr>)
   \<and> pipeline_call (failing_pipeline OutOfMemoryError) ''def f():'' world0 =
     (Inl OutOfMemoryError, \<lparr>calls = [Pipeline_call ''def f():''], ext = 0\<rparr>)
   \<and> generate_text (failing_pipeline OutOfMemoryError) ''def f():'' world0 =
     (Inl OutOfMemoryError, \<lparr>calls = [Pipeline_call ''def f():''], ext = 0\<rparr>)"
proof -
  let ?M1 = "Model_from_pretrained ''unknown/model'' default_quantization_config
               ''auto'' True None"
  let ?M2 = "Model_from_pretrained ''weights-only'' default_quantization_config
               ''auto'' True None"
  let ?T2 = "Tokenizer_from_pretrained ''weights-only'' None"
  have kw: "quantization_config default_kwargs = None" "device_map default_kwargs = ''auto''"
    "use_cache default_kwargs = True" "trust_remote_code default_kwargs = None"
    by (simp_all add: default_kwargs_def)
  have h1: "model_from_pretrained hub ''unknown/model'' default_quantization_config ''auto''
              True None world0 =
            (Inl (OSError ''unknown/model''), \<lparr>calls = [?M1], ext = 0\<rparr>)"
    by (simp add: model_from_pretrained_def hub_def world0_def)
  have h2: "model_from_pretrained hub ''weights-only'' default_quantization_config ''auto''
              True None world0 =
            (Inr ''weights-only'', \<lparr>calls = [?M2], ext = 1\<rparr>)"
    by (simp add: model_from_pretrained_def hub_def world0_def)
  have h3: "tokenizer_from_pretrained hub ''weights-only'' None \<lparr>calls = [?M2], ext = 1\<rparr> =
            (Inl (OSError ''weights-only''), \<lparr>calls = [?M2, ?T2], ext = 1\<rparr>)"
    by (simp add: tokenizer_from_pretrained_def hub_def)
  have h4: "pipeline_call (failing_pipeline OutOfMemoryError) ''def f():'' world0 =
            (Inl OutOfMemoryError, \<lparr>calls = [Pipeline_call ''def f():''], ext = 0\<rparr>)"
    by (simp add: pipeline_call_def failing_pipeline_def world0_def)
  have c1: "instantiate_huggingface_model hub ''unknown/model'' default_kwargs world0 =
            (Inl (OSError ''unknown/model''), \<lparr>calls = [?M1], ext = 0\<rparr>)"
    using h1
      library_errors_propagate [where lib = hub and model_name = "''unknown/model''"
        and kw = default_kwargs and w = world0 and e = "OSError ''unknown/model''"
        and ?w1.0 = "\<lparr>calls = [?M1], ext = 0\<rparr>", THEN conjunct1]
    by (simp add: kw)
  have c2: "instantiate_huggingface_model hub ''weights-only'' default_kwargs world0 =
            (Inl (OSError ''weights-only''), \<lparr>calls = [?M2, ?T2], ext = 1\<rparr>)"
    using h2 h3
      library_errors_propagate [where lib = hub and model_name = "''weights-only''"
        and kw = default_kwargs and w = world0 and e = "OSError ''weights-only''"
        and model = "''weights-only''"
        and ?w1.0 = "\<lparr>calls = [?M2], ext = 1\<rparr>"
        and ?w2.0 = "\<lparr>calls = [?M2, ?T2], ext = 1\<rparr>",
        THEN conjunct2, THEN conjunct1]
    by (simp add: kw)
  have c4: "generate_text (failing_pipeline OutOfMemoryError) ''def f():'' world0 =
            (Inl OutOfMemoryError, \<lparr>calls = [Pipeline_call ''def f():''], ext = 0\<rparr>)"
    using h4
      library_errors_propagate [where pipeline = "failing_pipeline OutOfMemoryError"
        and prompt = "''def f():''" and v = world0 and e = OutOfMemoryError
        and ?v1.0 = "\<lparr>calls = [Pipeline_call ''def f():''], ext = 0\<rparr>",
        THEN conjunct2, THEN conjunct2, THEN conjunct2]
    by simp
  from h1 h2 h3 h4 c1 c2 c4 show ?thesis
    by simp
qed

subsection \<open>The pair the loader returns\<close>



subsection \<open>The pad token and the padding side\<close>

text \<open>
  C9, as stated, fails: a load that succeeds can leave the pad token \<^verbatim>\<open>None\<close>. On
  the hub entry whose tokenizer has no end-of-sequence token, the loader called with its
  default arguments returns a tokenizer whose pad token is \<^verbatim>\<open>None\<close>.
\<close>

theorem pad_token_None_counterexample:
  "fst (instantiate_huggingface_model hub ''no-eos'' default_kwargs world0) =
     Inr (''no-eos'',
          \<lparr>tokenizer_eos_token = None, tokenizer_pad_token = None,
           tokenizer_padding_side = ''left'', tokenizer_rest = ()\<rparr>)
   \<and> tokenizer_pad_token
        \<lparr>tokenizer_eos_token = None, tokenizer_pad_token = None,
         tokenizer_padding_side = ''left'', tokenizer_rest = ()\<rparr> = None"
  by (simp add: instantiate_huggingface_model_def model_from_pretrained_def
      tokenizer_from_pretrained_def hub_def default_kwargs_def world0_def)

text \<open>
  C9, amended. Every successful load leaves the returned tokenizer's pad token equal to
  the supplied \<^verbatim>\<open>pad_token\<close>, or, when none is supplied, to the tokenizer's
  end-of-sequence token; so the pad token is \<^verbatim>\<open>None\<close> exactly when no pad token
  is supplied and the tokenizer has no end-of-sequence token. The padding side is the
  \<^verbatim>\<open>padding_side\<close> argument, which is \<^verbatim>\<open>left\<close> by default.
\<close>

theorem pad_token_and_padding_side_after_load:
  assumes "instantiate_huggingface_model lib model_name kw w = (Inr (model, tokenizer), w')"
  shows "tokenizer_pad_token tokenizer =
           (case pad_token kw of Some p \<Rightarrow> Some p | None \<Rightarrow> tokenizer_eos_token tokenizer)
         \<and> (tokenizer_pad_token tokenizer = None \<longleftrightarrow>
              pad_token kw = None \<and> tokenizer_eos_token tokenizer = None)
         \<and> tokenizer_padding_side tokenizer = padding_side kw
         \<and> padding_side default_kwargs = ''left''"
  using assms
  by (auto simp: instantiate_Inr_iff default_kwargs_def split: option.splits)

lemma hub_load_no_eos:
  "instantiate_huggingface_model hub ''no-eos''
       (default_kwargs\<lparr>pad_token := Some ''<pad>''\<rparr>) world0 =
     (Inr (''no-eos'',
           \<lparr>tokenizer_eos_token = None, tokenizer_pad_token = Some ''<pad>'',
            tokenizer_padding_side = ''left'', tokenizer_rest = ()\<rparr>),
      \<lparr>calls = [Model_from_pretrained ''no-eos'' default_quantization_config
                  ''auto'' True None,
                Tokenizer_from_pretrained ''no-eos'' None],
       ext = 2\<rparr>)"
  by (simp add: instantiate_huggingface_model_def model_from_pretrained_def
      tokenizer_from_pretrained_def hub_def default_kwargs_def world0_def)

theorem pad_token_and_padding_side_after_load_witness:
  "instantiate_huggingface_model hub ''no-eos''
       (default_kwargs\<lparr>pad_token := Some ''<pad>''\<rparr>) world0 =
     (Inr (''no-eos'',
           \<lparr>tokenizer_eos_token = None, tokenizer_pad_token = Some ''<pad>'',
            tokenizer_padding_side = ''left'', tokenizer_rest = ()\<rparr>),
      \<lparr>calls = [Model_from_pretrained ''no-eos'' default_quantization_config
                  ''auto'' True None,
                Tokenizer_from_pretrained ''no-eos'' None],
       ext = 2\<rparr>)
   \<and> tokenizer_pad_token
        \<lparr>tokenizer_eos_token = None, tokenizer_pad_token = Some ''<pad>'',
         tokenizer_padding_side = ''left'', tokenizer_rest = ()\<rparr> = Some ''<pad>''
   \<and> tokenizer_padding_side
        \<lparr>tokenizer_eos_token = None, tokenizer_pad_token = Some ''<pad>'',
         tokenizer_padding_side = ''left'', tokenizer_rest = ()\<rparr> =
       padding_side (default_kwargs\<lparr>pad_token := Some ''<pad>''\<rparr>)
   \<and> padding_side default_kwargs = ''left''"
  using pad_token_and_padding_side_after_load [OF hub_load_no_eos] hub_load_no_eos
  by (simp add: default_kwargs_def)

subsection \<open>Indexing the result of the pipeline\<close>

text \<open>
  C8. \<^verbatim>\<open>generate_text\<close> indexes element 0 of the pipeline's result and then the key
  \<^verbatim>\<open>generated_text\<close>, whatever the result is. On an empty list it raises
  \<^verbatim>\<open>IndexError\<close>; on a list whose first element has no \<^verbatim>\<open>generated_text\<close> key
  it raises \<^verbatim>\<open>KeyError\<close>; and it completes without raising exactly when the
  pipeline returns a non-empty list whose first element has that key.
\<close>

theorem generate_text_indexing:
  "(pipeline_call pipeline prompt w = (Inr [], w1)
      \<longrightarrow> generate_text pipeline prompt w = (Inl IndexError, w1))
   \<and> (pipeline_call pipeline prompt w = (Inr (d # ds), w1) \<and> d ''generated_text'' = None
      \<longrightarrow> generate_text pipeline prompt w = (Inl (KeyError ''generated_text''), w1))
   \<and> ((\<exists>v. fst (generate_text pipeline prompt w) = Inr v) \<longleftrightarrow>
        (\<exists>d ds v. fst (pipeline_call pipeline prompt w) = Inr (d # ds)
                  \<and> d ''generated_text'' = Some v))"
  by (auto simp: generate_text_def
      split: prod.splits sum.splits list.splits option.splits)

theorem generate_text_indexing_witness:
  "pipeline_call (const_pipeline []) ''def f():'' world0 =
     (Inr [], \<lparr>calls = [Pipeline_call ''def f():''], ext = 1\<rparr>)
   \<and> generate_text (const_pipeline []) ''def f():'' world0 =
     (Inl IndexError, \<lparr>calls = [Pipeline_call ''def f():''], ext = 1\<rparr>)
   \<and> pipeline_call (const_pipeline [[''text'' \<mapsto> PyStr ''pass''], Map.empty]) ''def f():''
       world0 =
     (Inr [[''text'' \<mapsto> PyStr ''pass''], Map.empty],
      \<lparr>calls = [Pipeline_call ''def f():''], ext = 1\<rparr>)
   \<and> [''text'' \<mapsto> PyStr ''pass''] ''generated_text'' = None
   \<and> generate_text (const_pipeline [[''text'' \<mapsto> PyStr ''pass''], Map.empty]) ''def f():''
       world0 =
     (Inl (KeyError ''generated_text''), \<lparr>calls = [Pipeline_call ''def f():''], ext = 1\<rparr>)
   \<and> fst (generate_text echo_pipeline ''def f():'' world0) = Inr PyNone
   \<and> fst (pipeline_call echo_pipeline ''def f():'' world0) =
       Inr [[''generated_text'' \<mapsto> PyStr ''def f(): pass'']]"
proof -
  let ?w1 = "\<lparr>calls = [Pipeline_call ''def f():''], ext = 1::nat\<rparr>"
  let ?d = "[''text'' \<mapsto> PyStr ''pass'']"
  have h1: "pipeline_call (const_pipeline []) ''def f():'' world0 = (Inr [], ?w1)"
    by (simp add: pipeline_call_def const_pipeline_def world0_def)
  have h2: "pipeline_call (const_pipeline [?d, Map.empty]) ''def f():'' world0 =
            (Inr [?d, Map.empty], ?w1)"
    by (simp add: pipeline_call_def const_pipeline_def world0_def)
  have h3: "?d ''generated_text'' = None"
    by simp
  have h4: "fst (pipeline_call echo_pipeline ''def f():'' world0) =
            Inr [[''generated_text'' \<mapsto> PyStr ''def f(): pass'']]"
    by (simp add: pipeline_call_def echo_pipeline_def world0_def)
  have h5: "[''generated_text'' \<mapsto> PyStr ''def f(): pass''] ''generated_text'' =
            Some (PyStr ''def f(): pass'')"
    by simp
  have c1: "generate_text (const_pipeline []) ''def f():'' world0 = (Inl IndexError, ?w1)"
    using h1
      generate_text_indexing [where pipeline = "const_pipeline []" and prompt = "''def f():''"
        and w = world0 and ?w1.0 = ?w1, THEN conjunct1]
    by simp
  have c2: "generate_text (const_pipeline [?d, Map.empty]) ''def f():'' world0 =
            (Inl (KeyError ''generated_text''), ?w1)"
    using h2 h3
      generate_text_indexing [where pipeline = "const_pipeline [?d, Map.empty]"
        and prompt = "''def f():''" and w = world0 and ?w1.0 = ?w1 and d = ?d
        and ds = "[Map.empty]", THEN conjunct2, THEN conjunct1]
    by simp
  have "\<exists>v. fst (generate_text echo_pipeline ''def f():'' world0) = Inr v"
    using h4 h5
      generate_text_indexing [where pipeline = echo_pipeline and prompt = "''def f():''"
        and w = world0, THEN conjunct2, THEN conjunct2]
    by blast
  then have c3: "fst (generate_text echo_pipeline ''def f():'' world0) = Inr PyNone"
    by (auto simp: generate_text_def split: prod.splits sum.splits list.splits option.splits)
  from h1 h2 h3 h4 c1 c2 c3 show ?thesis
    by simp
qed

subsection \<open>The value of a call of the generator\<close>

text \<open>
  C1. The docstring of \<^verbatim>\<open>generate_text\<close> promises the generated text as a string.
  The body binds it to the local name \<^verbatim>\<open>result\<close> and ends there, so the call
  evaluates to \<^verbatim>\<open>None\<close>: on a pipeline whose first completion for the prompt
  \<^verbatim>\<open>def f():\<close> is \<^verbatim>\<open>def f(): pass\<close>, the value is \<^verbatim>\<open>None\<close> and not that
  string.
\<close>

theorem generate_text_returns_None:
  "(case fst (pipeline_call echo_pipeline ''def f():'' world0) of
      Inr (d # ds) \<Rightarrow> d ''generated_text''
    | _ \<Rightarrow> None) = Some (PyStr ''def f(): pass'')
   \<and> generate_text echo_pipeline ''def f():'' world0 =
       (Inr PyNone, \<lparr>calls = [Pipeline_call ''def f():''], ext = 1\<rparr>)
   \<and> fst (generate_text echo_pipeline ''def f():'' world0) \<noteq> Inr (PyStr ''def f(): pass'')"
  by (simp add: generate_text_def pipeline_call_def echo_pipeline_def world0_def)

end
